theory Spec2Isabelle
  imports Main
begin

section \<open>Python string primitives used by the agent\<close>

text \<open>
  The agent (\<^verbatim>\<open>src/agents/chess_agent.py\<close>) uses \<^verbatim>\<open>str.strip()\<close>, \<^verbatim>\<open>str.split("\n")\<close>,
  \<^verbatim>\<open>str.split()\<close> and \<^verbatim>\<open>str.startswith\<close>. Strings are lists of characters; a character
  stands for a code point below 256.
\<close>

definition newline :: char where
  "newline = CHR 0x0A"

definition py_isspace :: "char \<Rightarrow> bool" where
  \<comment> \<open>the code points below 256 for which Python's \<^verbatim>\<open>str.isspace\<close> holds\<close>
  "py_isspace c = (of_char c \<in> {9, 10, 11, 12, 13, 28, 29, 30, 31, 32, 133, 160 :: nat})"

definition py_strip :: "string \<Rightarrow> string" where
  \<comment> \<open>\<^verbatim>\<open>s.strip()\<close>\<close>
  "py_strip s = rev (dropWhile py_isspace (rev (dropWhile py_isspace s)))"

fun split_on :: "char \<Rightarrow> string \<Rightarrow> string \<Rightarrow> string list" where
  \<comment> \<open>\<^verbatim>\<open>s.split(sep)\<close> for a one-character separator; the second argument is the piece
     read so far\<close>
  "split_on sep cur [] = [cur]"
| "split_on sep cur (c # cs) =
     (if c = sep then cur # split_on sep [] cs else split_on sep (cur @ [c]) cs)"

fun ws_tokens :: "string \<Rightarrow> string \<Rightarrow> string list" where
  \<comment> \<open>\<^verbatim>\<open>s.split()\<close>: the maximal runs of non-whitespace characters\<close>
  "ws_tokens cur [] = (if cur = [] then [] else [cur])"
| "ws_tokens cur (c # cs) =
     (if py_isspace c then (if cur = [] then ws_tokens [] cs else cur # ws_tokens [] cs)
      else ws_tokens (cur @ [c]) cs)"

definition py_split :: "string \<Rightarrow> string list" where
  "py_split s = ws_tokens [] s"

definition startswith :: "string \<Rightarrow> string \<Rightarrow> bool" where
  "startswith s p = (take (length p) s = p)"

definition py_or :: "string option \<Rightarrow> string \<Rightarrow> string" where
  \<comment> \<open>\<^verbatim>\<open>x or default\<close> for an optional string: \<^verbatim>\<open>None\<close> and the empty string are falsy\<close>
  "py_or x dflt = (case x of None \<Rightarrow> dflt | Some s \<Rightarrow> if s = [] then dflt else s)"


section \<open>The message records\<close>

text \<open>
  The records of \<^verbatim>\<open>models/a2a.py\<close> as the agent constructs and reads them: only the fields
  the agent sets or reads are kept. A part's \<^verbatim>\<open>text\<close> and \<^verbatim>\<open>file_url\<close> are optional (the
  agent builds a text part without a file reference and a file part without a text).
\<close>

record MessagePart =
  part_kind :: string
  part_text :: "string option"
  part_file_url :: "string option"

record A2AMessage =
  msg_role :: string
  msg_parts :: "MessagePart list"
  msg_taskId :: "string option"

record Artifact =
  art_name :: string
  art_parts :: "MessagePart list"

record TaskStatus =
  status_state :: string
  status_message :: A2AMessage

record TaskResult =
  res_id :: string
  res_contextId :: string
  res_status :: TaskStatus
  res_artifacts :: "Artifact list"
  res_history :: "A2AMessage list"

definition text_part :: "string \<Rightarrow> MessagePart" where
  \<comment> \<open>\<^verbatim>\<open>MessagePart(kind="text", text=t)\<close>\<close>
  "text_part t = \<lparr>part_kind = ''text'', part_text = Some t, part_file_url = None\<rparr>"

definition file_part :: "string \<Rightarrow> MessagePart" where
  \<comment> \<open>\<^verbatim>\<open>MessagePart(kind="file", file_url=u)\<close>\<close>
  "file_part u = \<lparr>part_kind = ''file'', part_text = None, part_file_url = Some u\<rparr>"


section \<open>The external collaborators\<close>

text \<open>
  The chess library (\<^verbatim>\<open>python-chess\<close>) is a parameter: a position type \<open>'pos\<close>, a move
  type \<open>'mv\<close> and the operations the agent calls. An operation that can raise returns an
  option, \<open>None\<close> standing for the exception. \<open>move_bool\<close> is the truth value of a move
  object (\<^verbatim>\<open>chess.Move.__bool__\<close>: the null move is falsy), which \<^verbatim>\<open>if ai_move:\<close> tests.
\<close>

record ('pos, 'mv) chess =
  Board :: 'pos
  parse_san :: "'pos \<Rightarrow> string \<Rightarrow> 'mv option"
  push :: "'pos \<Rightarrow> 'mv \<Rightarrow> 'pos"
  legal_moves :: "'pos \<Rightarrow> 'mv list"
  san :: "'pos \<Rightarrow> 'mv \<Rightarrow> string option"
  fen :: "'pos \<Rightarrow> string"
  from_uci :: "string \<Rightarrow> 'mv option"
  move_bool :: "'mv \<Rightarrow> bool"
  is_checkmate :: "'pos \<Rightarrow> bool"
  is_check :: "'pos \<Rightarrow> bool"
  is_game_over :: "'pos \<Rightarrow> bool"
  svg_board :: "'pos \<Rightarrow> string"

text \<open>
  What \<^verbatim>\<open>await process.communicate(input)\<close> followed by \<^verbatim>\<open>stdout.decode()\<close> does: it
  writes the input, closes the input stream and reads the output until the process closes
  it. It raises, or yields the decoded output, or never returns because the process never
  closes its output (the call has no timeout).
\<close>

datatype communicate = CommunicateRaises | Stdout string | Blocks

text \<open>
  What \<^verbatim>\<open>await asyncio.create_subprocess_exec(path, ...)\<close> does: it raises
  \<^verbatim>\<open>FileNotFoundError\<close>, raises another exception, or starts a process, which is the
  function from the bytes written to its input stream to what communicating with it does.
\<close>

datatype subprocess = FileNotFoundError | SpawnRaises | Process "string \<Rightarrow> communicate"

text \<open>
  An operating-system process seen from its input stream: the function from what is done to
  the stream, in order, to what communicating with the process then yields.
  \<^verbatim>\<open>process.communicate(input)\<close> writes the input and closes the stream before it reads the
  output, so the process object that \<^verbatim>\<open>create_subprocess_exec\<close> returns for the
  operating-system process \<open>proc\<close> is \<open>Process (process_communicate proc)\<close>.
\<close>

datatype stdin_event = Write string | Close

definition process_communicate :: "(stdin_event list \<Rightarrow> communicate) \<Rightarrow> string \<Rightarrow> communicate" where
  "process_communicate proc input = proc [Write input, Close]"

text \<open>
  The operating system and the other libraries, as one call of the agent sees them:
  process creation by engine path, the identifiers \<^verbatim>\<open>str(uuid4())\<close> yields at lines 38 and
  39, \<^verbatim>\<open>cairosvg.svg2png\<close> (\<open>None\<close>: it raises), \<^verbatim>\<open>tempfile.gettempdir()\<close> (\<open>None\<close>: it
  raises) and whether opening and writing a file succeeds.
\<close>

record env =
  create_subprocess_exec :: "string \<Rightarrow> subprocess"
  uuid4_context :: string
  uuid4_task :: string
  svg2png :: "string \<Rightarrow> string option"
  gettempdir :: "string option"
  write_file :: "string \<Rightarrow> string \<Rightarrow> bool"


section \<open>Exceptions and outcomes\<close>

datatype exn =
  ValueError string
| AttributeError
| ChessError

text \<open>
  A coroutine of the agent returns a value, raises, or never returns.
\<close>

datatype 'a outcome = Returns 'a | Raises exn | NeverReturns

text \<open>The result of a \<^verbatim>\<open>try\<close> body whose exceptions are all caught by the handler.\<close>

datatype 'a attempt = Value 'a | Caught


section \<open>The engine bridge: \<^verbatim>\<open>_get_stockfish_move\<close>\<close>

definition stockfish_commands :: "('pos, 'mv) chess \<Rightarrow> 'pos \<Rightarrow> string list" where
  \<comment> \<open>lines 130-135\<close>
  "stockfish_commands lib board =
     [''uci'' @ [newline],
      ''isready'' @ [newline],
      ''position fen '' @ fen lib board @ [newline],
      ''go movetime 1000'' @ [newline]]"

definition stockfish_input :: "('pos, 'mv) chess \<Rightarrow> 'pos \<Rightarrow> string" where
  \<comment> \<open>\<^verbatim>\<open>"".join(commands).encode()\<close>, line 137\<close>
  "stockfish_input lib board = concat (stockfish_commands lib board)"

fun find_bestmove :: "('pos, 'mv) chess \<Rightarrow> string list \<Rightarrow> 'mv option attempt" where
  \<comment> \<open>the loop of lines 140-145: \<^verbatim>\<open>line.split()[1]\<close> raises on a line with one token,
     \<^verbatim>\<open>chess.Move.from_uci\<close> raises on a token that is no move\<close>
  "find_bestmove lib [] = Value None"
| "find_bestmove lib (line # rest) =
     (if startswith line ''bestmove'' then
        (case py_split line of
           _ # move_uci # _ \<Rightarrow>
             (case from_uci lib move_uci of
                Some m \<Rightarrow> Value (Some m)
              | None \<Rightarrow> Caught)
         | _ \<Rightarrow> Caught)
      else find_bestmove lib rest)"

definition first_legal_move :: "('pos, 'mv) chess \<Rightarrow> 'pos \<Rightarrow> 'mv option" where
  \<comment> \<open>lines 148-149 and 152-153: \<^verbatim>\<open>legal_moves[0] if legal_moves else None\<close>\<close>
  "first_legal_move lib board =
     (case legal_moves lib board of [] \<Rightarrow> None | m # _ \<Rightarrow> Some m)"

text \<open>
  The body of the \<^verbatim>\<open>try\<close> and its two handlers. The handlers differ only in the line they
  print, which the model leaves out; both return the first legal move, or \<^verbatim>\<open>None\<close> when
  there is none. The \<^verbatim>\<open>return None\<close> of line 145 is reached when no line of the output
  starts with \<^verbatim>\<open>bestmove\<close>.
\<close>

definition get_stockfish_move ::
  "('pos, 'mv) chess \<Rightarrow> env \<Rightarrow> string \<Rightarrow> 'pos \<Rightarrow> 'mv option outcome" where
  "get_stockfish_move lib os engine_path board =
     (case create_subprocess_exec os engine_path of
        FileNotFoundError \<Rightarrow> Returns (first_legal_move lib board)
      | SpawnRaises \<Rightarrow> Returns (first_legal_move lib board)
      | Process communicate \<Rightarrow>
          (case communicate (stockfish_input lib board) of
             Blocks \<Rightarrow> NeverReturns
           | CommunicateRaises \<Rightarrow> Returns (first_legal_move lib board)
           | Stdout output \<Rightarrow>
               (case find_bestmove lib (split_on newline [] output) of
                  Value r \<Rightarrow> Returns r
                | Caught \<Rightarrow> Returns (first_legal_move lib board))))"


section \<open>Saving the board image: \<^verbatim>\<open>_save_board_image\<close>\<close>

definition path_join :: "string \<Rightarrow> string \<Rightarrow> string" where
  \<comment> \<open>\<^verbatim>\<open>os.path.join(a, b)\<close> on a POSIX system\<close>
  "path_join a b =
     (if startswith b ''/'' then b
      else if a = [] \<or> last a = CHR ''/'' then a @ b
      else a @ ''/'' @ b)"

text \<open>
  Every exception of the body is caught and turned into the empty reference. The file
  written is not part of the model's state: nothing reads it back.
\<close>

definition save_board_image :: "env \<Rightarrow> string \<Rightarrow> string \<Rightarrow> string \<Rightarrow> string" where
  "save_board_image os svg_content context_id task_id =
     (case svg2png os svg_content of
        None \<Rightarrow> ''''
      | Some png_data \<Rightarrow>
          (case gettempdir os of
             None \<Rightarrow> ''''
           | Some tmp_dir \<Rightarrow>
               (let file_path = path_join tmp_dir (context_id @ ''-'' @ task_id @ ''.png'')
                in if write_file os file_path png_data then ''file://'' @ file_path
                   else '''')))"


section \<open>The agent: \<^verbatim>\<open>ChessAgent\<close>\<close>

record 'pos ChessAgent =
  engine_path :: string
  boards :: "string \<rightharpoonup> 'pos"

definition init :: "string \<Rightarrow> 'pos ChessAgent" where
  \<comment> \<open>\<^verbatim>\<open>__init__\<close>\<close>
  "init path = \<lparr>engine_path = path, boards = Map.empty\<rparr>"

definition get_board :: "('pos, 'mv) chess \<Rightarrow> 'pos ChessAgent \<Rightarrow> string \<Rightarrow> 'pos" where
  \<comment> \<open>line 42: \<^verbatim>\<open>self.boards.get(context_id, chess.Board())\<close>\<close>
  "get_board lib self context_id =
     (case boards self context_id of None \<Rightarrow> Board lib | Some b \<Rightarrow> b)"

fun extract_move_text :: "MessagePart list \<Rightarrow> exn + string" where
  \<comment> \<open>lines 50-54: the stripped text of the first text part, the empty string when there
     is none; \<^verbatim>\<open>part.text.strip()\<close> raises on a text part without a text\<close>
  "extract_move_text [] = Inr ''''"
| "extract_move_text (part # rest) =
     (if part_kind part = ''text'' then
        (case part_text part of
           None \<Rightarrow> Inl AttributeError
         | Some t \<Rightarrow> Inr (py_strip t))
      else extract_move_text rest)"

definition response_text :: "('pos, 'mv) chess \<Rightarrow> 'pos \<Rightarrow> string \<Rightarrow> string" where
  \<comment> \<open>lines 79-83\<close>
  "response_text lib board ai_move_san =
     ''I played '' @ ai_move_san @
       (if is_checkmate lib board then '' - Checkmate!''
        else if is_check lib board then '' - Check!''
        else '''')"

definition response_message :: "('pos, 'mv) chess \<Rightarrow> 'pos \<Rightarrow> string \<Rightarrow> string \<Rightarrow> A2AMessage" where
  \<comment> \<open>lines 85-89\<close>
  "response_message lib board ai_move_san task_id =
     \<lparr>msg_role = ''agent'',
      msg_parts = [text_part (response_text lib board ai_move_san)],
      msg_taskId = Some task_id\<rparr>"

definition task_result ::
  "('pos, 'mv) chess \<Rightarrow> A2AMessage list \<Rightarrow> string \<Rightarrow> string \<Rightarrow> 'pos \<Rightarrow> string \<Rightarrow> string
     \<Rightarrow> TaskResult" where
  \<comment> \<open>lines 78-118, from the final board, the engine move's notation and the image
     reference\<close>
  "task_result lib messages context_id task_id board ai_move_san board_url =
     \<lparr>res_id = task_id,
      res_contextId = context_id,
      res_status =
        \<lparr>status_state = (if \<not> is_game_over lib board then ''input-required'' else ''completed''),
         status_message = response_message lib board ai_move_san task_id\<rparr>,
      res_artifacts =
        [\<lparr>art_name = ''move'', art_parts = [text_part ai_move_san]\<rparr>,
         \<lparr>art_name = ''board'', art_parts = [file_part board_url]\<rparr>],
      res_history = messages @ [response_message lib board ai_move_san task_id]\<rparr>"

definition render_and_reply ::
  "('pos, 'mv) chess \<Rightarrow> env \<Rightarrow> A2AMessage list \<Rightarrow> string \<Rightarrow> string \<Rightarrow> 'pos \<Rightarrow> string
     \<Rightarrow> TaskResult" where
  \<comment> \<open>lines 74-118\<close>
  "render_and_reply lib os messages context_id task_id board ai_move_san =
     task_result lib messages context_id task_id board ai_move_san
       (save_board_image os (svg_board lib board) context_id task_id)"

definition apply_ai_move ::
  "('pos, 'mv) chess \<Rightarrow> 'pos \<Rightarrow> 'mv option \<Rightarrow> (string \<times> 'pos) option" where
  \<comment> \<open>lines 68-72: the notation recorded for the engine's move and the board after it;
     \<open>None\<close> when \<^verbatim>\<open>board.san(ai_move)\<close> raises\<close>
  "apply_ai_move lib board ai =
     (case ai of
        None \<Rightarrow> Some (''No legal moves available'', board)
      | Some ai_move \<Rightarrow>
          (if move_bool lib ai_move then
             (case san lib board ai_move of
                None \<Rightarrow> None
              | Some ai_move_san \<Rightarrow> Some (ai_move_san, push lib board ai_move))
           else Some (''No legal moves available'', board)))"

text \<open>
  Lines 44-118 of \<^verbatim>\<open>process_messages\<close>, from the board fetched at line 42. The board is a
  mutable object: the one fetched at line 42 is the one stored at line 64, so
  \<^verbatim>\<open>board.push(ai_move)\<close> at line 70 changes the stored board too, and the model writes the
  store again after the engine's move. The state returned with a failure or with
  \<open>NeverReturns\<close> is the store as the call has left it at that point.
\<close>

definition play_turn ::
  "('pos, 'mv) chess \<Rightarrow> env \<Rightarrow> A2AMessage list \<Rightarrow> string \<Rightarrow> string \<Rightarrow> 'pos
     \<Rightarrow> 'pos ChessAgent \<Rightarrow> TaskResult outcome \<times> 'pos ChessAgent" where
  "play_turn lib os messages context_id task_id board self =
     (if messages = [] then (Raises (ValueError ''No message provided''), self)
      else
        (case extract_move_text (msg_parts (last messages)) of
           Inl e \<Rightarrow> (Raises e, self)
         | Inr move_text \<Rightarrow>
             (case parse_san lib board move_text of
                None \<Rightarrow> (Raises (ValueError (''Invalid move: '' @ move_text)), self)
              | Some move \<Rightarrow>
                  (let board1 = push lib board move;
                       self1 = self\<lparr>boards := (boards self)(context_id \<mapsto> board1)\<rparr>
                   in case get_stockfish_move lib os (engine_path self) board1 of
                        NeverReturns \<Rightarrow> (NeverReturns, self1)
                      | Raises e \<Rightarrow> (Raises e, self1)
                      | Returns ai \<Rightarrow>
                          (case apply_ai_move lib board1 ai of
                             None \<Rightarrow> (Raises ChessError, self1)
                           | Some (ai_move_san, board2) \<Rightarrow>
                               (Returns (render_and_reply lib os messages context_id task_id
                                  board2 ai_move_san),
                                self1\<lparr>boards := (boards self1)(context_id \<mapsto> board2)\<rparr>))))))"

definition process_messages ::
  "('pos, 'mv) chess \<Rightarrow> env \<Rightarrow> A2AMessage list \<Rightarrow> string option \<Rightarrow> string option
     \<Rightarrow> 'pos ChessAgent \<Rightarrow> TaskResult outcome \<times> 'pos ChessAgent" where
  \<comment> \<open>lines 37-42, then the turn; the \<^verbatim>\<open>config\<close> argument is never read\<close>
  "process_messages lib os messages context_id task_id self =
     (let context_id' = py_or context_id (uuid4_context os);
          task_id' = py_or task_id (uuid4_task os)
      in play_turn lib os messages context_id' task_id'
           (get_board lib self context_id') self)"

definition cleanup :: "'pos ChessAgent \<Rightarrow> 'pos ChessAgent" where
  \<comment> \<open>\<^verbatim>\<open>self.boards.clear()\<close>\<close>
  "cleanup self = self\<lparr>boards := Map.empty\<rparr>"


section \<open>A scripted rules engine and engine processes\<close>

text \<open>
  A small instance of the collaborators, to run the agent on concrete inputs: a rules engine
  that knows one line of play, 1. e4 e5 2. Qh5 Ke7 3. Qxe5 mate. A position is the list of
  the moves played, a move is its coordinate notation. In each position of the line the next
  move is the only legal one; after the mate, and off the line, there is none.
\<close>

definition script_line :: "(string \<times> string) list" where
  "script_line =
     [(''e2e4'', ''e4''), (''e7e5'', ''e5''), (''d1h5'', ''Qh5''), (''e8e7'', ''Ke7''),
      (''h5e5'', ''Qxe5#'')]"

definition script_moves :: "string list \<Rightarrow> (string \<times> string) list" where
  "script_moves pos =
     (if pos = take (length pos) (map fst script_line)
      then take 1 (drop (length pos) script_line) else [])"

definition script_chess :: "(string list, string) chess" where
  "script_chess =
     \<lparr>Board = [],
      parse_san = (\<lambda>pos s. map_of (map (\<lambda>(u, n). (n, u)) (script_moves pos)) s),
      push = (\<lambda>pos m. pos @ [m]),
      legal_moves = (\<lambda>pos. map fst (script_moves pos)),
      san = (\<lambda>pos m. map_of (script_moves pos) m),
      fen = (\<lambda>pos. concat (map (\<lambda>m. m @ '' '') pos)),
      from_uci = (\<lambda>t. if length t = 4 then Some t else None),
      move_bool = (\<lambda>m. m \<noteq> ''0000''),
      is_checkmate = (\<lambda>pos. pos = map fst script_line),
      is_check = (\<lambda>pos. pos = map fst script_line),
      is_game_over = (\<lambda>pos. script_moves pos = []),
      svg_board = (\<lambda>pos. ''<svg>'' @ concat (map (\<lambda>m. m @ '' '') pos) @ ''</svg>'')\<rparr>"

definition script_env :: "subprocess \<Rightarrow> env" where
  \<comment> \<open>an environment with the given engine process and a working image store\<close>
  "script_env proc =
     \<lparr>create_subprocess_exec = (\<lambda>_. proc),
      uuid4_context = ''ctx-0001'',
      uuid4_task = ''task-0001'',
      svg2png = (\<lambda>svg. Some (''PNG'' @ svg)),
      gettempdir = Some ''/tmp'',
      write_file = (\<lambda>_ _. True)\<rparr>"

definition engine_says :: "string \<Rightarrow> subprocess" where
  \<comment> \<open>a process that prints the given text and exits, whatever it is sent\<close>
  "engine_says out = Process (\<lambda>_. Stdout out)"

definition hung_engine :: subprocess where
  \<comment> \<open>a process that never closes its output\<close>
  "hung_engine = Process (\<lambda>_. Blocks)"

definition user_says :: "string \<Rightarrow> A2AMessage" where
  "user_says t = \<lparr>msg_role = ''user'', msg_parts = [text_part t], msg_taskId = None\<rparr>"

definition no_renderer :: "subprocess \<Rightarrow> env" where
  \<comment> \<open>as \<open>script_env\<close>, with an image conversion that raises\<close>
  "no_renderer proc = (script_env proc)\<lparr>svg2png := \<lambda>_. None\<rparr>"

definition mate_in_one :: "string list ChessAgent" where
  \<comment> \<open>an agent whose game \<^verbatim>\<open>game\<close> stands one move before the mate\<close>
  "mate_in_one =
     \<lparr>engine_path = ''stockfish'',
      boards = [''game'' \<mapsto> [''e2e4'', ''e7e5'', ''d1h5'', ''e8e7'']]\<rparr>"

definition file_only_message :: A2AMessage where
  \<comment> \<open>a message without a text part\<close>
  "file_only_message =
     \<lparr>msg_role = ''user'', msg_parts = [file_part ''file:///tmp/x.png''], msg_taskId = None\<rparr>"


definition picky_engine :: "stdin_event list \<Rightarrow> communicate" where
  \<comment> \<open>an engine that answers c7c5 when it is sent exactly the four commands for the position
     after 1. e4 and its input is then closed, and otherwise keeps its output open\<close>
  "picky_engine events =
     (if events =
          [Write (''uci'' @ [newline] @ ''isready'' @ [newline] @ ''position fen e2e4 ''
                    @ [newline] @ ''go movetime 1000'' @ [newline]),
           Close]
      then Stdout ''bestmove c7c5'' else Blocks)"

text \<open>
  The scripted rules with a notation printer that does not check legality, as
  \<^verbatim>\<open>board.san\<close> of the library, which only asserts that the move's from-square holds a piece:
  a move off the script is printed as a king move to its target square. After the mated king
  has stepped to e8 the game goes on: the queen can take it.
\<close>

definition lenient_moves :: "string list \<Rightarrow> (string \<times> string) list" where
  "lenient_moves pos =
     (if pos = map fst script_line @ [''e7e8''] then [(''e5e8'', ''Qxe8'')]
      else script_moves pos)"

definition lenient_chess :: "(string list, string) chess" where
  "lenient_chess =
     script_chess
       \<lparr>legal_moves := (\<lambda>pos. map fst (lenient_moves pos)),
        san := (\<lambda>pos m. case map_of (lenient_moves pos) m of
                          Some n \<Rightarrow> Some n
                        | None \<Rightarrow> Some (''K'' @ drop 2 m)),
        is_game_over := (\<lambda>pos. lenient_moves pos = [])\<rparr>"

text \<open>
  A second scripted line of play, in which the engine's move ends the game:
  1. f3 e5 2. g4 Qh4 mate.
\<close>

definition fools_line :: "(string \<times> string) list" where
  "fools_line =
     [(''f2f3'', ''f3''), (''e7e5'', ''e5''), (''g2g4'', ''g4''), (''d8h4'', ''Qh4#'')]"

definition fools_moves :: "string list \<Rightarrow> (string \<times> string) list" where
  "fools_moves pos =
     (if pos = take (length pos) (map fst fools_line)
      then take 1 (drop (length pos) fools_line) else [])"

definition fools_chess :: "(string list, string) chess" where
  "fools_chess =
     script_chess
       \<lparr>parse_san := (\<lambda>pos s. map_of (map (\<lambda>(u, n). (n, u)) (fools_moves pos)) s),
        legal_moves := (\<lambda>pos. map fst (fools_moves pos)),
        san := (\<lambda>pos m. map_of (fools_moves pos) m),
        is_checkmate := (\<lambda>pos. pos = map fst fools_line),
        is_check := (\<lambda>pos. pos = map fst fools_line),
        is_game_over := (\<lambda>pos. fools_moves pos = [])\<rparr>"

definition before_fools_mate :: "string list ChessAgent" where
  \<comment> \<open>an agent whose game \<^verbatim>\<open>game\<close> stands after 1. f3 e5\<close>
  "before_fools_mate =
     \<lparr>engine_path = ''stockfish'', boards = [''game'' \<mapsto> [''f2f3'', ''e7e5'']]\<rparr>"


section \<open>Facts about the model\<close>

lemmas py_defs = py_isspace_def py_strip_def py_split_def startswith_def py_or_def newline_def

lemmas model_defs = Let_def process_messages_def play_turn_def get_stockfish_move_def
  apply_ai_move_def render_and_reply_def task_result_def response_message_def
  response_text_def save_board_image_def path_join_def first_legal_move_def
  stockfish_input_def stockfish_commands_def get_board_def init_def cleanup_def
  text_part_def file_part_def

lemmas script_defs = script_chess_def script_env_def engine_says_def hung_engine_def
  user_says_def script_moves_def script_line_def no_renderer_def mate_in_one_def
  file_only_message_def

text \<open>A call that returns has passed every step of the turn.\<close>

lemma play_turn_ReturnsD:
  assumes "play_turn lib os messages cid tid board self = (Returns r, self')"
  shows "\<exists>mt move ai s b2. messages \<noteq> [] \<and>
     extract_move_text (msg_parts (last messages)) = Inr mt \<and>
     parse_san lib board mt = Some move \<and>
     get_stockfish_move lib os (engine_path self) (push lib board move) = Returns ai \<and>
     apply_ai_move lib (push lib board move) ai = Some (s, b2) \<and>
     r = render_and_reply lib os messages cid tid b2 s \<and>
     self' = self\<lparr>boards := (boards self)(cid \<mapsto> b2)\<rparr>"
  using assms
  by (auto simp: play_turn_def Let_def
      split: if_splits sum.splits option.splits outcome.splits prod.splits)

lemma process_messages_ReturnsD:
  assumes "process_messages lib os messages c t self = (Returns r, self')"
  shows "\<exists>mt move ai s b2. messages \<noteq> [] \<and>
     extract_move_text (msg_parts (last messages)) = Inr mt \<and>
     parse_san lib (get_board lib self (py_or c (uuid4_context os))) mt = Some move \<and>
     get_stockfish_move lib os (engine_path self)
       (push lib (get_board lib self (py_or c (uuid4_context os))) move) = Returns ai \<and>
     apply_ai_move lib (push lib (get_board lib self (py_or c (uuid4_context os))) move) ai
       = Some (s, b2) \<and>
     r = render_and_reply lib os messages (py_or c (uuid4_context os))
           (py_or t (uuid4_task os)) b2 s \<and>
     self' = self\<lparr>boards := (boards self)(py_or c (uuid4_context os) \<mapsto> b2)\<rparr>"
  using assms unfolding process_messages_def Let_def by (rule play_turn_ReturnsD)

text \<open>The engine bridge never raises: it returns or it waits for ever.\<close>

lemma get_stockfish_move_never_raises:
  "get_stockfish_move lib os p b \<noteq> Raises e"
  by (auto simp: get_stockfish_move_def
      split: subprocess.splits communicate.splits attempt.splits)

text \<open>Output without a best-move line ends the loop of lines 140-145 with \<^verbatim>\<open>None\<close>.\<close>

lemma find_bestmove_no_marker:
  "\<forall>line \<in> set lines. \<not> startswith line ''bestmove'' \<Longrightarrow>
     find_bestmove lib lines = Value None"
  by (induction lines) auto

text \<open>The fallback move is a legal move, and there is none only in a position without one.\<close>

lemma first_legal_move_sound:
  "first_legal_move lib b = Some m \<Longrightarrow> m \<in> set (legal_moves lib b)"
  by (auto simp: first_legal_move_def split: list.splits)

lemma first_legal_move_None:
  "(first_legal_move lib b = None) = (legal_moves lib b = [])"
  by (auto simp: first_legal_move_def split: list.splits)

lemma extract_no_text:
  "\<forall>p \<in> set ps. part_kind p \<noteq> ''text'' \<Longrightarrow> extract_move_text ps = Inr ''''"
  by (induction ps) auto

lemma split_on_append:
  "sep \<notin> set xs \<Longrightarrow> split_on sep cur (xs @ sep # ys) = (cur @ xs) # split_on sep [] ys"
  by (induction xs arbitrary: cur) auto

text \<open>Two turns of the scripted game, evaluated.\<close>

lemma first_turn:
  "process_messages script_chess (script_env (engine_says ''bestmove e7e5 ponder g1f3''))
     [user_says ''e4''] (Some ''game'') (Some ''task'') (init ''stockfish'') =
   (Returns (task_result script_chess [user_says ''e4''] ''game'' ''task'' [''e2e4'', ''e7e5'']
       ''e5'' ''file:///tmp/game-task.png''),
    \<lparr>engine_path = ''stockfish'', boards = [''game'' \<mapsto> [''e2e4'', ''e7e5'']]\<rparr>)"
  by (simp add: model_defs py_defs script_defs)

lemma mating_turn:
  "process_messages script_chess (script_env (engine_says ''bestmove (none)''))
     [user_says ''Qxe5#''] (Some ''game'') (Some ''task'') mate_in_one =
   (Returns (task_result script_chess [user_says ''Qxe5#''] ''game'' ''task''
       [''e2e4'', ''e7e5'', ''d1h5'', ''e8e7'', ''h5e5'']
       ''No legal moves available'' ''file:///tmp/game-task.png''),
    \<lparr>engine_path = ''stockfish'',
     boards = [''game'' \<mapsto> [''e2e4'', ''e7e5'', ''d1h5'', ''e8e7'', ''h5e5'']]\<rparr>)"
  by (simp add: model_defs py_defs script_defs)

lemmas more_script_defs = process_communicate_def picky_engine_def lenient_moves_def
  lenient_chess_def fools_line_def fools_moves_def fools_chess_def before_fools_mate_def

lemma engine_mates_turn:
  "process_messages fools_chess (script_env (engine_says ''bestmove d8h4 ponder a2a3''))
     [user_says ''g4''] (Some ''game'') (Some ''task'') before_fools_mate =
   (Returns (task_result fools_chess [user_says ''g4''] ''game'' ''task''
       [''f2f3'', ''e7e5'', ''g2g4'', ''d8h4''] ''Qh4#'' ''file:///tmp/game-task.png''),
    \<lparr>engine_path = ''stockfish'',
     boards = [''game'' \<mapsto> [''f2f3'', ''e7e5'', ''g2g4'', ''d8h4'']]\<rparr>)"
  by (simp add: model_defs py_defs script_defs more_script_defs)



section \<open>The engine bridge\<close>

text \<open>
  Claim C1 says that in a position with a legal move \<^verbatim>\<open>_get_stockfish_move\<close> returns one of
  the legal moves, also when the engine process runs and prints no best-move line. The code
  does not: after 1. e4 the scripted position has the legal move e7e5, the engine process
  prints \<^verbatim>\<open>readyok\<close> and exits, and the bridge returns \<^verbatim>\<open>None\<close> (line 145) instead of the
  fallback move of the two handlers. The turn then reports that no legal moves are
  available and asks for the next input.
\<close>

theorem engine_without_bestmove_line_yields_no_move:
  "legal_moves script_chess [''e2e4''] = [''e7e5''] \<and>
   get_stockfish_move script_chess (script_env (engine_says ''readyok'')) ''stockfish''
     [''e2e4''] = Returns None \<and>
   fst (process_messages script_chess (script_env (engine_says ''readyok'')) [user_says ''e4'']
     (Some ''game'') (Some ''task'') (init ''stockfish'')) =
   Returns (task_result script_chess [user_says ''e4''] ''game'' ''task'' [''e2e4'']
     ''No legal moves available'' ''file:///tmp/game-task.png'')"
  by (simp add: model_defs py_defs script_defs)

text \<open>
  Claim C2 says that the wait on the engine process is bounded by the time budget and that
  an expired budget is handled like a process failure. The code has no timeout: with an
  engine process that never closes its output the bridge, and the turn with it, never
  returns, whereas a process that cannot be started yields the fallback move.
\<close>

theorem hung_engine_never_returns:
  "get_stockfish_move script_chess (script_env hung_engine) ''stockfish'' [''e2e4'']
     = NeverReturns \<and>
   fst (process_messages script_chess (script_env hung_engine) [user_says ''e4'']
     (Some ''game'') (Some ''task'') (init ''stockfish'')) = NeverReturns \<and>
   get_stockfish_move script_chess (script_env FileNotFoundError) ''stockfish'' [''e2e4'']
     = Returns (Some ''e7e5'')"
  by (simp add: model_defs py_defs script_defs)

text \<open>
  Claim C2 as amended: the bridge asks the engine for a one-second search
  (\<^verbatim>\<open>go movetime 1000\<close>) and then waits without a bound. It never returns exactly when the
  process it started never finishes communicating; when the process cannot be started or
  communicating with it raises, it returns the first legal move (\<^verbatim>\<open>None\<close> when there is
  none).
\<close>

theorem engine_wait_unbounded:
  "(get_stockfish_move lib os p b = NeverReturns) =
     (\<exists>run. create_subprocess_exec os p = Process run \<and> run (stockfish_input lib b) = Blocks)
   \<and> ((create_subprocess_exec os p = FileNotFoundError \<or>
        create_subprocess_exec os p = SpawnRaises \<or>
        (\<exists>run. create_subprocess_exec os p = Process run \<and>
           run (stockfish_input lib b) = CommunicateRaises))
       \<longrightarrow> get_stockfish_move lib os p b = Returns (first_legal_move lib b))"
  by (auto simp: get_stockfish_move_def
      split: subprocess.splits communicate.splits attempt.splits)

text \<open>
  Claim C2, the amended statement at concrete inputs: a process that cannot be started
  yields the fallback move e7e5, a hung process blocks the call.
\<close>

theorem engine_wait_unbounded_witness:
  "get_stockfish_move script_chess (script_env SpawnRaises) ''stockfish'' [''e2e4'']
     = Returns (Some ''e7e5'') \<and>
   get_stockfish_move script_chess (script_env hung_engine) ''stockfish'' [''e2e4'']
     = NeverReturns"
  using engine_wait_unbounded [of script_chess "script_env SpawnRaises" "''stockfish''" "[''e2e4'']"]
    engine_wait_unbounded [of script_chess "script_env hung_engine" "''stockfish''" "[''e2e4'']"]
  by (simp add: first_legal_move_def script_defs)

text \<open>
  Claim C8: when the engine binary starts as the process \<open>proc\<close>, what happens on the
  process's input stream is one write of the bytes of four newline-terminated commands, in
  this order \<^verbatim>\<open>uci\<close>, \<^verbatim>\<open>isready\<close>, \<^verbatim>\<open>position fen\<close> with the position's FEN and
  \<^verbatim>\<open>go movetime 1000\<close>, followed by the closing of the stream; the bridge's result is decided
  by what the process does on exactly these events. When the FEN holds no newline, the bytes
  split at newlines into exactly the four commands and the empty rest after the last
  newline.
\<close>

theorem engine_input_is_four_commands:
  assumes "create_subprocess_exec os p = Process (process_communicate proc)"
  shows "get_stockfish_move lib os p board =
     (case proc [Write (''uci'' @ [newline] @ ''isready'' @ [newline] @ ''position fen ''
                   @ fen lib board @ [newline] @ ''go movetime 1000'' @ [newline]),
                 Close] of
        Blocks \<Rightarrow> NeverReturns
      | CommunicateRaises \<Rightarrow> Returns (first_legal_move lib board)
      | Stdout output \<Rightarrow>
          (case find_bestmove lib (split_on newline [] output) of
             Value r \<Rightarrow> Returns r
           | Caught \<Rightarrow> Returns (first_legal_move lib board)))
   \<and> (newline \<notin> set (fen lib board) \<longrightarrow>
        split_on newline []
          (''uci'' @ [newline] @ ''isready'' @ [newline] @ ''position fen ''
             @ fen lib board @ [newline] @ ''go movetime 1000'' @ [newline]) =
          [''uci'', ''isready'', ''position fen '' @ fen lib board, ''go movetime 1000'', []])"
proof -
  have inp: "stockfish_input lib board =
     ''uci'' @ [newline] @ ''isready'' @ [newline] @ ''position fen '' @ fen lib board @ [newline]
       @ ''go movetime 1000'' @ [newline]"
    by (simp add: stockfish_input_def stockfish_commands_def)
  have run: "get_stockfish_move lib os p board =
     (case proc [Write (stockfish_input lib board), Close] of
        Blocks \<Rightarrow> NeverReturns
      | CommunicateRaises \<Rightarrow> Returns (first_legal_move lib board)
      | Stdout output \<Rightarrow>
          (case find_bestmove lib (split_on newline [] output) of
             Value r \<Rightarrow> Returns r
           | Caught \<Rightarrow> Returns (first_legal_move lib board)))"
    using assms
    by (simp add: get_stockfish_move_def process_communicate_def split: communicate.splits)
  have sp: "split_on newline [] (stockfish_input lib board) =
          [''uci'', ''isready'', ''position fen '' @ fen lib board, ''go movetime 1000'', []]"
    if nl: "newline \<notin> set (fen lib board)"
  proof -
    have 1: "newline \<notin> set ''uci''" "newline \<notin> set ''isready''"
      "newline \<notin> set (''position fen '' @ fen lib board)" "newline \<notin> set ''go movetime 1000''"
      using nl by (simp_all add: newline_def)
    have "stockfish_input lib board = ''uci'' @ newline # (''isready'' @ newline #
       ((''position fen '' @ fen lib board) @ newline # (''go movetime 1000'' @ newline # [])))"
      by (simp add: inp)
    then show ?thesis
      by (simp only: split_on_append [OF 1(1)] split_on_append [OF 1(2)]
          split_on_append [OF 1(3)] split_on_append [OF 1(4)] split_on.simps append_Nil)
  qed
  from run sp show ?thesis unfolding inp by blast
qed

text \<open>
  Claim C8 at a concrete input: after 1. e4 the fallback move would be e7e5; an engine that
  answers c7c5 only when it is sent exactly the four commands and its input is then closed
  makes the bridge return c7c5.
\<close>

theorem engine_input_is_four_commands_witness:
  "first_legal_move script_chess [''e2e4''] = Some ''e7e5'' \<and>
   get_stockfish_move script_chess (script_env (Process (process_communicate picky_engine)))
     ''stockfish'' [''e2e4''] = Returns (Some ''c7c5'') \<and>
   split_on newline []
     (''uci'' @ [newline] @ ''isready'' @ [newline] @ ''position fen e2e4 '' @ [newline]
        @ ''go movetime 1000'' @ [newline]) =
     [''uci'', ''isready'', ''position fen e2e4 '', ''go movetime 1000'', []]"
proof -
  have started: "create_subprocess_exec (script_env (Process (process_communicate picky_engine)))
      ''stockfish'' = Process (process_communicate picky_engine)"
    by (simp add: script_env_def)
  from engine_input_is_four_commands [OF started, of script_chess "[''e2e4'']"]
  show ?thesis
    by (simp add: picky_engine_def first_legal_move_def py_defs script_defs)
qed


section \<open>Rejected input\<close>

text \<open>
  Claim C3 says that a call without a message, or whose latest message has no text part,
  fails with the invalid-input error, distinct from the illegal-move error. The code raises
  \<^verbatim>\<open>ValueError("No message provided")\<close> only for the empty list. For a message without a text
  part the move text stays empty and the call fails in the move handler, with the error an
  illegal move with the empty text gives.
\<close>

theorem no_text_part_is_invalid_move:
  "fst (process_messages script_chess (script_env FileNotFoundError) [file_only_message]
     (Some ''game'') (Some ''task'') (init ''stockfish''))
     = Raises (ValueError ''Invalid move: '') \<and>
   fst (process_messages script_chess (script_env FileNotFoundError) [file_only_message]
     (Some ''game'') (Some ''task'') (init ''stockfish''))
     = fst (process_messages script_chess (script_env FileNotFoundError) [user_says '''']
     (Some ''game'') (Some ''task'') (init ''stockfish'')) \<and>
   fst (process_messages script_chess (script_env FileNotFoundError) [file_only_message]
     (Some ''game'') (Some ''task'') (init ''stockfish''))
     \<noteq> Raises (ValueError ''No message provided'')"
  by (simp add: model_defs py_defs script_defs)

text \<open>
  Claim C3 as amended: a call with an empty message list fails with
  \<^verbatim>\<open>ValueError("No message provided")\<close>; a call whose latest message has no text part fails,
  the rules engine rejecting the empty notation, with \<^verbatim>\<open>ValueError("Invalid move: ")\<close>, the
  illegal-move error carrying the empty text. In both cases the failure reaches the caller
  and the agent's state is what it was.
\<close>

theorem missing_input_fails_unmutated:
  assumes "messages = [] \<or> (\<forall>p \<in> set (msg_parts (last messages)). part_kind p \<noteq> ''text'')"
    and "messages \<noteq> [] \<longrightarrow>
           parse_san lib (get_board lib self (py_or c (uuid4_context os))) '''' = None"
  shows "process_messages lib os messages c t self =
     (Raises (ValueError (if messages = [] then ''No message provided'' else ''Invalid move: '')),
      self)"
proof (cases "messages = []")
  case True
  then show ?thesis by (simp add: process_messages_def play_turn_def)
next
  case False
  with assms(1) have "extract_move_text (msg_parts (last messages)) = Inr ''''"
    by (simp add: extract_no_text)
  with False assms(2) show ?thesis by (simp add: process_messages_def play_turn_def)
qed

text \<open>
  Claim C3, the amended statement at concrete inputs: with a game in progress, the empty
  message list and a message holding only a file part both fail and leave the agent as it
  was.
\<close>

theorem missing_input_fails_unmutated_witness:
  "process_messages script_chess (script_env FileNotFoundError) []
      (Some ''game'') (Some ''task'') mate_in_one
    = (Raises (ValueError ''No message provided''), mate_in_one) \<and>
   process_messages script_chess (script_env FileNotFoundError) [file_only_message]
     (Some ''game'') (Some ''task'') mate_in_one
    = (Raises (ValueError ''Invalid move: ''), mate_in_one)"
  using missing_input_fails_unmutated [of "[]" script_chess mate_in_one "Some ''game''"
      "script_env FileNotFoundError" "Some ''task''"]
    missing_input_fails_unmutated [of "[file_only_message]" script_chess mate_in_one
      "Some ''game''" "script_env FileNotFoundError" "Some ''task''"]
  by (simp add: model_defs py_defs script_defs)

text \<open>
  Claim C4: when the move text of the latest message (the stripped text of its first text
  part) does not parse as a legal move of the context's current position, the call raises
  \<^verbatim>\<open>ValueError\<close> with the message \<^verbatim>\<open>Invalid move: \<close> followed by that text, and the agent's
  state, the stored position of every context included, is what it was before the call.
\<close>

theorem illegal_move_fails_unmutated:
  assumes "messages \<noteq> []"
    and "extract_move_text (msg_parts (last messages)) = Inr move_text"
    and "parse_san lib (get_board lib self (py_or c (uuid4_context os))) move_text = None"
  shows "process_messages lib os messages c t self =
           (Raises (ValueError (''Invalid move: '' @ move_text)), self)"
  using assms by (simp add: process_messages_def play_turn_def)

text \<open>
  Claim C4 at a concrete input: \<^verbatim>\<open>e9e9\<close> one move before the mate is rejected and the game
  stays where it was.
\<close>

theorem illegal_move_fails_unmutated_witness:
  "process_messages script_chess (script_env FileNotFoundError) [user_says '' e9e9 '']
     (Some ''game'') (Some ''task'') mate_in_one
   = (Raises (ValueError ''Invalid move: e9e9''), mate_in_one)"
  using illegal_move_fails_unmutated [of "[user_says '' e9e9 '']" "''e9e9''" script_chess
      mate_in_one "Some ''game''" "script_env FileNotFoundError" "Some ''task''"]
  by (simp add: model_defs py_defs script_defs)


section \<open>The session store\<close>

text \<open>
  Claim C5: after a successful call for a context \<open>c\<close>, the position stored for \<open>c\<close> is the
  one reached by the human's move and the engine's counter-move of that call, and any later
  call for \<open>c\<close> on the state the first call left is the turn played from exactly that
  position.
\<close>

theorem next_call_starts_from_stored_position:
  assumes "c \<noteq> []"
    and "process_messages lib os1 msgs1 (Some c) t1 self0 = (Returns r1, self1)"
  shows "\<exists>mt move ai s b2.
     extract_move_text (msg_parts (last msgs1)) = Inr mt \<and>
     parse_san lib (get_board lib self0 c) mt = Some move \<and>
     get_stockfish_move lib os1 (engine_path self0) (push lib (get_board lib self0 c) move)
       = Returns ai \<and>
     apply_ai_move lib (push lib (get_board lib self0 c) move) ai = Some (s, b2) \<and>
     boards self1 c = Some b2 \<and>
     (\<forall>os2 msgs2 t2. process_messages lib os2 msgs2 (Some c) t2 self1 =
        play_turn lib os2 msgs2 c (py_or t2 (uuid4_task os2)) b2 self1)"
proof -
  from assms(1) have cid: "py_or (Some c) x = c" for x by (simp add: py_or_def)
  from process_messages_ReturnsD [OF assms(2)] obtain mt move ai s b2 where
    a: "extract_move_text (msg_parts (last msgs1)) = Inr mt"
      "parse_san lib (get_board lib self0 c) mt = Some move"
      "get_stockfish_move lib os1 (engine_path self0) (push lib (get_board lib self0 c) move)
        = Returns ai"
      "apply_ai_move lib (push lib (get_board lib self0 c) move) ai = Some (s, b2)"
    and s1: "self1 = self0\<lparr>boards := (boards self0)(c \<mapsto> b2)\<rparr>"
    unfolding cid by blast
  from s1 have st: "boards self1 c = Some b2" by simp
  then have "process_messages lib os2 msgs2 (Some c) t2 self1 =
        play_turn lib os2 msgs2 c (py_or t2 (uuid4_task os2)) b2 self1" for os2 msgs2 t2
    by (simp add: process_messages_def cid get_board_def)
  with a st show ?thesis by blast
qed

text \<open>
  Claim C5 at a concrete input: the first call plays 1. e4 and the engine answers e5; the
  position stored for the game holds both moves, and every later call for the game is played
  from it.
\<close>

theorem next_call_starts_from_stored_position_witness:
  "process_messages script_chess (script_env (engine_says ''bestmove e7e5 ponder g1f3''))
     [user_says ''e4''] (Some ''game'') (Some ''task'') (init ''stockfish'') =
   (Returns (task_result script_chess [user_says ''e4''] ''game'' ''task'' [''e2e4'', ''e7e5'']
       ''e5'' ''file:///tmp/game-task.png''),
    \<lparr>engine_path = ''stockfish'', boards = [''game'' \<mapsto> [''e2e4'', ''e7e5'']]\<rparr>) \<and>
   boards \<lparr>engine_path = ''stockfish'', boards = [''game'' \<mapsto> [''e2e4'', ''e7e5'']]\<rparr> ''game''
     = Some [''e2e4'', ''e7e5''] \<and>
   (\<forall>os2 msgs2 t2.
      process_messages script_chess os2 msgs2 (Some ''game'') t2
        \<lparr>engine_path = ''stockfish'', boards = [''game'' \<mapsto> [''e2e4'', ''e7e5'']]\<rparr> =
      play_turn script_chess os2 msgs2 ''game'' (py_or t2 (uuid4_task os2)) [''e2e4'', ''e7e5'']
        \<lparr>engine_path = ''stockfish'', boards = [''game'' \<mapsto> [''e2e4'', ''e7e5'']]\<rparr>)"
proof -
  have ne: "''game'' \<noteq> []" by simp
  have "boards \<lparr>engine_path = ''stockfish'', boards = [''game'' \<mapsto> [''e2e4'', ''e7e5'']]\<rparr> ''game''
     = Some [''e2e4'', ''e7e5''] \<and>
   (\<forall>os2 msgs2 t2.
      process_messages script_chess os2 msgs2 (Some ''game'') t2
        \<lparr>engine_path = ''stockfish'', boards = [''game'' \<mapsto> [''e2e4'', ''e7e5'']]\<rparr> =
      play_turn script_chess os2 msgs2 ''game'' (py_or t2 (uuid4_task os2)) [''e2e4'', ''e7e5'']
        \<lparr>engine_path = ''stockfish'', boards = [''game'' \<mapsto> [''e2e4'', ''e7e5'']]\<rparr>)"
    using next_call_starts_from_stored_position [OF ne first_turn] by auto
  with first_turn show ?thesis by (rule conjI)
qed

text \<open>
  Claim C10: after \<^verbatim>\<open>cleanup\<close> the store is empty and the agent is as freshly created, so a
  call for any context, one with a game in progress before included, is the turn played from
  the rules engine's initial position.
\<close>

theorem cleanup_resets_sessions:
  "boards (cleanup self) = Map.empty \<and>
   get_board lib (cleanup self) c = Board lib \<and>
   cleanup self = init (engine_path self) \<and>
   process_messages lib os messages cid t (cleanup self) =
     play_turn lib os messages (py_or cid (uuid4_context os)) (py_or t (uuid4_task os))
       (Board lib) (init (engine_path self))"
  by (cases self) (simp add: cleanup_def get_board_def process_messages_def init_def)


section \<open>The result of a turn\<close>

text \<open>
  Claim C6 says that the state of a successful turn is \<^verbatim>\<open>completed\<close> exactly when the final
  position is game over and that, in particular, a position without legal moves after the
  human's move gives \<^verbatim>\<open>completed\<close> and a move artifact saying that no legal moves are
  available. The particular case fails when the engine process announces a move all the
  same: the bridge returns it unchecked (lines 141-143) and the turn plays it (lines 68-70).
  After the mate Qxe5 an engine answering \<^verbatim>\<open>bestmove e7e8\<close> makes the turn record Ke8 and ask
  for the next input.
\<close>

theorem unchecked_engine_move_after_mate:
  "legal_moves lenient_chess [''e2e4'', ''e7e5'', ''d1h5'', ''e8e7'', ''h5e5''] = [] \<and>
   is_game_over lenient_chess [''e2e4'', ''e7e5'', ''d1h5'', ''e8e7'', ''h5e5''] \<and>
   process_messages lenient_chess (script_env (engine_says ''bestmove e7e8''))
     [user_says ''Qxe5#''] (Some ''game'') (Some ''task'') mate_in_one =
   (Returns (task_result lenient_chess [user_says ''Qxe5#''] ''game'' ''task''
       [''e2e4'', ''e7e5'', ''d1h5'', ''e8e7'', ''h5e5'', ''e7e8''] ''Ke8''
       ''file:///tmp/game-task.png''),
    \<lparr>engine_path = ''stockfish'',
     boards = [''game'' \<mapsto> [''e2e4'', ''e7e5'', ''d1h5'', ''e8e7'', ''h5e5'', ''e7e8'']]\<rparr>) \<and>
   status_state (res_status (task_result lenient_chess [user_says ''Qxe5#''] ''game'' ''task''
       [''e2e4'', ''e7e5'', ''d1h5'', ''e8e7'', ''h5e5'', ''e7e8''] ''Ke8''
       ''file:///tmp/game-task.png'')) = ''input-required'' \<and>
   res_artifacts (task_result lenient_chess [user_says ''Qxe5#''] ''game'' ''task''
       [''e2e4'', ''e7e5'', ''d1h5'', ''e8e7'', ''h5e5'', ''e7e8''] ''Ke8''
       ''file:///tmp/game-task.png'') ! 0 = \<lparr>art_name = ''move'', art_parts = [text_part ''Ke8'']\<rparr>"
  by (simp add: model_defs py_defs script_defs more_script_defs)

text \<open>
  Claim C6 as amended: in the result of a successful turn the state is \<^verbatim>\<open>completed\<close> if and
  only if the rules engine reports the final position as game over, and \<^verbatim>\<open>input-required\<close>
  otherwise; the final position, which is the one stored, is the board after the human's
  move and, when the bridge returned a move other than the null move, after that move too.
  In particular, when the position after the human's move has no legal move, the rules
  engine reports it as game over, and the engine process does not print a best-move line
  carrying a move other than the null move, the state is \<^verbatim>\<open>completed\<close> and the move artifact
  says that no legal moves are available.
\<close>

theorem state_completed_iff_game_over:
  assumes "process_messages lib os messages c t self = (Returns r, self')"
  shows "\<exists>mt move ai.
     extract_move_text (msg_parts (last messages)) = Inr mt \<and>
     parse_san lib (get_board lib self (py_or c (uuid4_context os))) mt = Some move \<and>
     get_stockfish_move lib os (engine_path self)
       (push lib (get_board lib self (py_or c (uuid4_context os))) move) = Returns ai \<and>
     get_board lib self' (py_or c (uuid4_context os)) =
       (case ai of
          None \<Rightarrow> push lib (get_board lib self (py_or c (uuid4_context os))) move
        | Some m \<Rightarrow>
            if move_bool lib m
            then push lib (push lib (get_board lib self (py_or c (uuid4_context os))) move) m
            else push lib (get_board lib self (py_or c (uuid4_context os))) move) \<and>
     (status_state (res_status r) = ''completed'') =
       is_game_over lib (get_board lib self' (py_or c (uuid4_context os))) \<and>
     (status_state (res_status r) = ''input-required'') =
       (\<not> is_game_over lib (get_board lib self' (py_or c (uuid4_context os)))) \<and>
     (legal_moves lib (push lib (get_board lib self (py_or c (uuid4_context os))) move) = [] \<and>
      is_game_over lib (push lib (get_board lib self (py_or c (uuid4_context os))) move) \<and>
      (\<forall>run out m.
         create_subprocess_exec os (engine_path self) = Process run \<and>
         run (stockfish_input lib
                (push lib (get_board lib self (py_or c (uuid4_context os))) move)) = Stdout out \<and>
         find_bestmove lib (split_on newline [] out) = Value (Some m) \<longrightarrow> \<not> move_bool lib m)
      \<longrightarrow> status_state (res_status r) = ''completed'' \<and>
          res_artifacts r ! 0 =
            \<lparr>art_name = ''move'', art_parts = [text_part ''No legal moves available'']\<rparr>)"
proof -
  let ?cid = "py_or c (uuid4_context os)"
  let ?b1 = "\<lambda>move. push lib (get_board lib self ?cid) move"
  from process_messages_ReturnsD [OF assms] obtain mt move ai s b2 where
    a: "extract_move_text (msg_parts (last messages)) = Inr mt"
      "parse_san lib (get_board lib self ?cid) mt = Some move"
      "get_stockfish_move lib os (engine_path self) (?b1 move) = Returns ai"
    and ap: "apply_ai_move lib (?b1 move) ai = Some (s, b2)"
    and r: "r = render_and_reply lib os messages ?cid (py_or t (uuid4_task os)) b2 s"
    and s1: "self' = self\<lparr>boards := (boards self)(?cid \<mapsto> b2)\<rparr>"
    by blast
  from s1 have gb: "get_board lib self' ?cid = b2" by (simp add: get_board_def)
  from ap have b2: "b2 = (case ai of None \<Rightarrow> ?b1 move
        | Some m \<Rightarrow> if move_bool lib m then push lib (?b1 move) m else ?b1 move)"
    by (auto simp: apply_ai_move_def split: option.splits if_splits)
  from r have st: "status_state (res_status r) =
      (if \<not> is_game_over lib b2 then ''input-required'' else ''completed'')"
    and art: "res_artifacts r ! 0 = \<lparr>art_name = ''move'', art_parts = [text_part s]\<rparr>"
    by (simp_all add: render_and_reply_def task_result_def)
  have src: "ai = None \<or>
        (\<exists>run out m. create_subprocess_exec os (engine_path self) = Process run \<and>
           run (stockfish_input lib (?b1 move)) = Stdout out \<and>
           find_bestmove lib (split_on newline [] out) = Value (Some m) \<and> ai = Some m)"
    if "legal_moves lib (?b1 move) = []"
  proof -
    from that have "first_legal_move lib (?b1 move) = None"
      by (simp add: first_legal_move_None)
    with a(3) show ?thesis
      by (auto simp: get_stockfish_move_def
          split: subprocess.splits communicate.splits attempt.splits)
  qed
  have part: "status_state (res_status r) = ''completed'' \<and>
          res_artifacts r ! 0 =
            \<lparr>art_name = ''move'', art_parts = [text_part ''No legal moves available'']\<rparr>"
    if h: "legal_moves lib (?b1 move) = []" "is_game_over lib (?b1 move)"
      "\<forall>run out m.
         create_subprocess_exec os (engine_path self) = Process run \<and>
         run (stockfish_input lib (?b1 move)) = Stdout out \<and>
         find_bestmove lib (split_on newline [] out) = Value (Some m) \<longrightarrow> \<not> move_bool lib m"
  proof -
    from src [OF h(1)] h(3) have "ai = None \<or> (\<exists>m. ai = Some m \<and> \<not> move_bool lib m)"
      by blast
    with ap have "s = ''No legal moves available''" "b2 = ?b1 move"
      by (auto simp: apply_ai_move_def)
    with h(2) st art show ?thesis by simp
  qed
  from gb b2 have gbf: "get_board lib self' ?cid =
       (case ai of None \<Rightarrow> ?b1 move
        | Some m \<Rightarrow> if move_bool lib m then push lib (?b1 move) m else ?b1 move)"
    by simp
  from st gb have iff1: "(status_state (res_status r) = ''completed'') =
       is_game_over lib (get_board lib self' ?cid)"
    and iff2: "(status_state (res_status r) = ''input-required'') =
       (\<not> is_game_over lib (get_board lib self' ?cid))"
    by simp_all
  from part have partI: "legal_moves lib (?b1 move) = [] \<and> is_game_over lib (?b1 move) \<and>
      (\<forall>run out m.
         create_subprocess_exec os (engine_path self) = Process run \<and>
         run (stockfish_input lib (?b1 move)) = Stdout out \<and>
         find_bestmove lib (split_on newline [] out) = Value (Some m) \<longrightarrow> \<not> move_bool lib m)
      \<longrightarrow> status_state (res_status r) = ''completed'' \<and>
          res_artifacts r ! 0 =
            \<lparr>art_name = ''move'', art_parts = [text_part ''No legal moves available'']\<rparr>"
    by blast
  from a gbf iff1 iff2 partI show ?thesis by blast
qed

text \<open>
  Claim C6, the amended statement at concrete inputs: a turn in which the engine's move
  Qh4 mates is completed, on the position that holds the engine's move; a turn after which
  the game goes on asks for input; and after the human's mate Qxe5, with an engine answering
  \<^verbatim>\<open>bestmove (none)\<close>, the turn is completed and reports that no legal moves are available.
\<close>

theorem state_completed_iff_game_over_witness:
  "is_game_over fools_chess [''f2f3'', ''e7e5'', ''g2g4'', ''d8h4''] \<and>
   status_state (res_status (task_result fools_chess [user_says ''g4''] ''game'' ''task''
       [''f2f3'', ''e7e5'', ''g2g4'', ''d8h4''] ''Qh4#'' ''file:///tmp/game-task.png''))
     = ''completed'' \<and>
   status_state (res_status (task_result script_chess [user_says ''e4''] ''game'' ''task''
       [''e2e4'', ''e7e5''] ''e5'' ''file:///tmp/game-task.png'')) = ''input-required'' \<and>
   legal_moves script_chess [''e2e4'', ''e7e5'', ''d1h5'', ''e8e7'', ''h5e5''] = [] \<and>
   status_state (res_status (task_result script_chess [user_says ''Qxe5#''] ''game'' ''task''
       [''e2e4'', ''e7e5'', ''d1h5'', ''e8e7'', ''h5e5'']
       ''No legal moves available'' ''file:///tmp/game-task.png'')) = ''completed'' \<and>
   res_artifacts (task_result script_chess [user_says ''Qxe5#''] ''game'' ''task''
       [''e2e4'', ''e7e5'', ''d1h5'', ''e8e7'', ''h5e5'']
       ''No legal moves available'' ''file:///tmp/game-task.png'') ! 0 =
     \<lparr>art_name = ''move'', art_parts = [text_part ''No legal moves available'']\<rparr>"
proof -
  let ?r1 = "task_result fools_chess [user_says ''g4''] ''game'' ''task''
       [''f2f3'', ''e7e5'', ''g2g4'', ''d8h4''] ''Qh4#'' ''file:///tmp/game-task.png''"
  let ?s1 = "\<lparr>engine_path = ''stockfish'',
       boards = [''game'' \<mapsto> [''f2f3'', ''e7e5'', ''g2g4'', ''d8h4'']]\<rparr>"
  let ?os1 = "script_env (engine_says ''bestmove d8h4 ponder a2a3'')"
  have over: "is_game_over fools_chess [''f2f3'', ''e7e5'', ''g2g4'', ''d8h4'']"
    by (simp add: fools_chess_def script_chess_def fools_moves_def fools_line_def)
  have gb1: "get_board fools_chess ?s1 (py_or (Some ''game'') (uuid4_context ?os1))
      = [''f2f3'', ''e7e5'', ''g2g4'', ''d8h4'']"
    by (simp add: get_board_def py_or_def)
  from state_completed_iff_game_over [OF engine_mates_turn]
  have "(status_state (res_status ?r1) = ''completed'') =
      is_game_over fools_chess
        (get_board fools_chess ?s1 (py_or (Some ''game'') (uuid4_context ?os1)))"
    by blast
  with over have mates: "status_state (res_status ?r1) = ''completed''"
    unfolding gb1 by simp
  let ?r2 = "task_result script_chess [user_says ''e4''] ''game'' ''task''
       [''e2e4'', ''e7e5''] ''e5'' ''file:///tmp/game-task.png''"
  let ?s2 = "\<lparr>engine_path = ''stockfish'', boards = [''game'' \<mapsto> [''e2e4'', ''e7e5'']]\<rparr>"
  let ?os2 = "script_env (engine_says ''bestmove e7e5 ponder g1f3'')"
  have not_over: "\<not> is_game_over script_chess [''e2e4'', ''e7e5'']"
    by (simp add: script_chess_def script_moves_def script_line_def)
  have gb2: "get_board script_chess ?s2 (py_or (Some ''game'') (uuid4_context ?os2))
      = [''e2e4'', ''e7e5'']"
    by (simp add: get_board_def py_or_def)
  from state_completed_iff_game_over [OF first_turn]
  have "(status_state (res_status ?r2) = ''input-required'') =
      (\<not> is_game_over script_chess
        (get_board script_chess ?s2 (py_or (Some ''game'') (uuid4_context ?os2))))"
    by blast
  with not_over have goes_on: "status_state (res_status ?r2) = ''input-required''"
    unfolding gb2 by simp
  let ?os = "script_env (engine_says ''bestmove (none)'')"
  let ?b0 = "get_board script_chess mate_in_one (py_or (Some ''game'') (uuid4_context ?os))"
  let ?r = "task_result script_chess [user_says ''Qxe5#''] ''game'' ''task''
       [''e2e4'', ''e7e5'', ''d1h5'', ''e8e7'', ''h5e5'']
       ''No legal moves available'' ''file:///tmp/game-task.png''"
  have b0: "?b0 = [''e2e4'', ''e7e5'', ''d1h5'', ''e8e7'']"
    by (simp add: get_board_def py_or_def mate_in_one_def)
  from state_completed_iff_game_over [OF mating_turn] obtain mt move ai where
    a: "extract_move_text (msg_parts (last [user_says ''Qxe5#''])) = Inr mt"
      "parse_san script_chess ?b0 mt = Some move"
      "get_stockfish_move script_chess ?os (engine_path mate_in_one)
         (push script_chess ?b0 move) = Returns ai"
    and imp: "legal_moves script_chess (push script_chess ?b0 move) = [] \<and>
      is_game_over script_chess (push script_chess ?b0 move) \<and>
      (\<forall>run out m.
         create_subprocess_exec ?os (engine_path mate_in_one) = Process run \<and>
         run (stockfish_input script_chess (push script_chess ?b0 move)) = Stdout out \<and>
         find_bestmove script_chess (split_on newline [] out) = Value (Some m)
         \<longrightarrow> \<not> move_bool script_chess m)
      \<longrightarrow> status_state (res_status ?r) = ''completed'' \<and>
          res_artifacts ?r ! 0 =
            \<lparr>art_name = ''move'', art_parts = [text_part ''No legal moves available'']\<rparr>"
    by blast
  from a(1) have mt: "mt = ''Qxe5#''"
    by (simp add: user_says_def text_part_def py_defs)
  from a(2) have mv: "move = ''h5e5''"
    unfolding b0 mt by (simp add: script_defs)
  have h3: "\<forall>run out m.
         create_subprocess_exec ?os (engine_path mate_in_one) = Process run \<and>
         run (stockfish_input script_chess (push script_chess ?b0 move)) = Stdout out \<and>
         find_bestmove script_chess (split_on newline [] out) = Value (Some m)
         \<longrightarrow> \<not> move_bool script_chess m"
    by (auto simp: script_env_def engine_says_def py_defs script_chess_def)
  have h1: "legal_moves script_chess (push script_chess ?b0 move) = []"
    unfolding b0 mv by (simp add: script_defs)
  have h2: "is_game_over script_chess (push script_chess ?b0 move)"
    unfolding b0 mv by (simp add: script_defs)
  from imp h1 h2 h3 have mated: "status_state (res_status ?r) = ''completed'' \<and>
          res_artifacts ?r ! 0 =
            \<lparr>art_name = ''move'', art_parts = [text_part ''No legal moves available'']\<rparr>"
    by blast
  have none: "legal_moves script_chess [''e2e4'', ''e7e5'', ''d1h5'', ''e8e7'', ''h5e5''] = []"
    by (simp add: script_defs)
  from over mates goes_on none mated show ?thesis by (intro conjI) simp_all
qed

text \<open>
  Claim C9: the history of a successful turn's result is the input message sequence with
  one message appended, the agent's response, and the status carries that same message.
\<close>

theorem history_appends_response:
  assumes "process_messages lib os messages c t self = (Returns r, self')"
  shows "\<exists>m. res_history r = messages @ [m] \<and> status_message (res_status r) = m \<and>
     msg_role m = ''agent''"
proof -
  from assms obtain s b2 where
    "r = render_and_reply lib os messages (py_or c (uuid4_context os))
           (py_or t (uuid4_task os)) b2 s"
    by (blast dest: process_messages_ReturnsD)
  then show ?thesis
    by (simp add: render_and_reply_def task_result_def response_message_def)
qed

text \<open>
  Claim C9 at a concrete input: the first turn of the scripted game returns the user's
  message followed by the agent's response.
\<close>

theorem history_appends_response_witness:
  "\<exists>r self'.
     process_messages script_chess (script_env (engine_says ''bestmove e7e5 ponder g1f3''))
       [user_says ''e4''] (Some ''game'') (Some ''task'') (init ''stockfish'') = (Returns r, self') \<and>
     res_history r = [user_says ''e4'', status_message (res_status r)] \<and>
     msg_role (status_message (res_status r)) = ''agent''"
proof -
  from history_appends_response [OF first_turn] obtain m where
    "res_history (task_result script_chess [user_says ''e4''] ''game'' ''task'' [''e2e4'', ''e7e5'']
       ''e5'' ''file:///tmp/game-task.png'') = [user_says ''e4''] @ [m]"
    "status_message (res_status (task_result script_chess [user_says ''e4''] ''game'' ''task''
       [''e2e4'', ''e7e5''] ''e5'' ''file:///tmp/game-task.png'')) = m" "msg_role m = ''agent''"
    by blast
  then show ?thesis using first_turn by simp
qed

text \<open>
  Claim C7: when converting or storing the board image fails (the conversion raises, no
  temporary directory is found, or the file cannot be written), the turn does not fail.
  Whatever result the turn returns with any other image conversion and store, a working one
  included, it returns here too, with the same state, the board artifact carrying the empty
  reference and every other field unchanged.
\<close>

theorem image_failure_keeps_turn:
  assumes ok: "process_messages lib (os\<lparr>svg2png := f, gettempdir := g, write_file := w\<rparr>)
                 messages c t self = (Returns r', self')"
    and fails: "svg2png os (svg_board lib (get_board lib self' (py_or c (uuid4_context os)))) = None
      \<or> gettempdir os = None
      \<or> (\<exists>png dir. svg2png os (svg_board lib (get_board lib self' (py_or c (uuid4_context os))))
            = Some png \<and> gettempdir os = Some dir \<and>
          \<not> write_file os (path_join dir
              (py_or c (uuid4_context os) @ ''-'' @ py_or t (uuid4_task os) @ ''.png'')) png)"
  shows "process_messages lib os messages c t self =
     (Returns (r'\<lparr>res_artifacts :=
        [res_artifacts r' ! 0, \<lparr>art_name = ''board'', art_parts = [file_part []]\<rparr>]\<rparr>), self')"
proof -
  let ?os' = "os\<lparr>svg2png := f, gettempdir := g, write_file := w\<rparr>"
  let ?cid = "py_or c (uuid4_context os)"
  let ?tid = "py_or t (uuid4_task os)"
  let ?b0 = "get_board lib self ?cid"
  have eng: "get_stockfish_move lib ?os' p b = get_stockfish_move lib os p b" for p b
    by (simp add: get_stockfish_move_def)
  from process_messages_ReturnsD [OF ok] obtain mt move ai s b2 where
    a: "messages \<noteq> []" "extract_move_text (msg_parts (last messages)) = Inr mt"
      "parse_san lib ?b0 mt = Some move"
      "get_stockfish_move lib os (engine_path self) (push lib ?b0 move) = Returns ai"
      "apply_ai_move lib (push lib ?b0 move) ai = Some (s, b2)"
    and r: "r' = render_and_reply lib ?os' messages ?cid ?tid b2 s"
    and s1: "self' = self\<lparr>boards := (boards self)(?cid \<mapsto> b2)\<rparr>"
    unfolding eng by auto
  from s1 have gb: "get_board lib self' ?cid = b2" by (simp add: get_board_def)
  from fails have "save_board_image os (svg_board lib b2) ?cid ?tid = []"
    unfolding gb by (auto simp: save_board_image_def Let_def split: option.splits)
  then have "render_and_reply lib os messages ?cid ?tid b2 s =
     r'\<lparr>res_artifacts :=
        [res_artifacts r' ! 0, \<lparr>art_name = ''board'', art_parts = [file_part []]\<rparr>]\<rparr>"
    by (simp add: r render_and_reply_def task_result_def)
  with a s1 show ?thesis
    by (simp add: process_messages_def play_turn_def Let_def)
qed

text \<open>
  Claim C7 at a concrete input: the first turn of the scripted game with an image conversion
  that raises returns the result of the working turn with an empty image reference.
\<close>

theorem image_failure_keeps_turn_witness:
  "process_messages script_chess (no_renderer (engine_says ''bestmove e7e5 ponder g1f3''))
     [user_says ''e4''] (Some ''game'') (Some ''task'') (init ''stockfish'') =
   (Returns (task_result script_chess [user_says ''e4''] ''game'' ''task'' [''e2e4'', ''e7e5'']
       ''e5'' []),
    \<lparr>engine_path = ''stockfish'', boards = [''game'' \<mapsto> [''e2e4'', ''e7e5'']]\<rparr>)"
proof -
  let ?os = "no_renderer (engine_says ''bestmove e7e5 ponder g1f3'')"
  have os': "?os\<lparr>svg2png := (\<lambda>svg. Some (''PNG'' @ svg)), gettempdir := Some ''/tmp'',
      write_file := (\<lambda>_ _. True)\<rparr> = script_env (engine_says ''bestmove e7e5 ponder g1f3'')"
    by (simp add: no_renderer_def script_env_def)
  have fails: "svg2png ?os (svg_board script_chess
      (get_board script_chess
         \<lparr>engine_path = ''stockfish'', boards = [''game'' \<mapsto> [''e2e4'', ''e7e5'']]\<rparr>
         (py_or (Some ''game'') (uuid4_context ?os)))) = None"
    by (simp add: no_renderer_def)
  show ?thesis
    using image_failure_keeps_turn [where lib = script_chess and os = ?os
        and f = "\<lambda>svg. Some (''PNG'' @ svg)" and g = "Some ''/tmp''" and w = "\<lambda>_ _. True"
        and messages = "[user_says ''e4'']" and c = "Some ''game''" and t = "Some ''task''"
        and self = "init ''stockfish''", unfolded os', OF first_turn] fails
    by (simp add: task_result_def)
qed

end
